theory Spec2Isabelle
  imports Main
begin

section \<open>Python values, exceptions and blocking calls\<close>

text \<open>
  The values that travel through the bridge are what \<^verbatim>\<open>json.loads\<close> produces and
  \<^verbatim>\<open>json.dumps\<close> accepts: \<^verbatim>\<open>None\<close>, booleans, integers, strings, lists and
  dictionaries with string keys (kept in insertion order, as Python dictionaries are).
  A \<open>string\<close> stands for a Python \<^verbatim>\<open>str\<close> whose code points are below 256.
  Floating-point numbers are left out: no property below looks inside a number.
\<close>

datatype json =
    JNull
  | JBool bool
  | JInt int
  | JStr string
  | JList "json list"
  | JDict "(string \<times> json) list"

text \<open>
  Both handlers catch \<^verbatim>\<open>Exception\<close> and use the caught object only through
  \<^verbatim>\<open>str(e)\<close>, so an exception is modelled by that text.
\<close>

datatype exn = PyException string

fun str :: "exn \<Rightarrow> string" where
  "str (PyException msg) = msg"

text \<open>
  A call that touches the operating system returns, raises, or never returns (a read on
  a pipe nobody writes to, a write on a pipe nobody drains). The handlers are coroutines
  whose bodies contain no suspension point around the pipe calls, so a call that never
  returns keeps the handler, and the event loop with it, from ever returning.
\<close>

datatype 'a io = Done 'a | Fails exn | Blocks

text \<open>
  The \<^verbatim>\<open>json\<close> module is Python's, not the repository's: the bridge is modelled for
  an arbitrary pair of functions. A Python call that raises is \<open>Inl\<close>.
\<close>

record json_module =
  dumps :: "json \<Rightarrow> exn + string"
  loads :: "string \<Rightarrow> exn + json"

section \<open>The subprocess and its pipes\<close>

text \<open>
  \<^verbatim>\<open>subprocess.Popen(["node", path], stdin=PIPE, stdout=PIPE, stderr=PIPE, text=True)\<close>.
  The peer is opaque, so what the pipe calls will do is part of the state: a script of
  outcomes for the successive calls on \<^verbatim>\<open>stdin\<close> (\<^verbatim>\<open>write\<close> and \<^verbatim>\<open>flush\<close>) and
  one for the successive calls of \<^verbatim>\<open>stdout.readline\<close>. Once a script is used up, a call
  on \<^verbatim>\<open>stdin\<close> succeeds and \<^verbatim>\<open>readline\<close> is at end of file, where it returns the empty
  string. \<open>stdin_buffer\<close> is the text \<^verbatim>\<open>write\<close> accepted and \<^verbatim>\<open>flush\<close> has not yet
  pushed; \<open>stdin_pipe\<close> is the text pushed into the pipe, which is what the subprocess
  can read.
\<close>

record popen =
  stdin_buffer :: string
  stdin_pipe :: string
  stdin_script :: "unit io list"
  stdout_script :: "string io list"

definition next_stdin :: "popen \<Rightarrow> unit io \<times> popen" where
  "next_stdin p =
     (case stdin_script p of
        [] \<Rightarrow> (Done (), p)
      | r # rs \<Rightarrow> (r, p\<lparr>stdin_script := rs\<rparr>))"

definition stdin_write :: "string \<Rightarrow> popen \<Rightarrow> unit io \<times> popen" where
  "stdin_write s p =
     (case next_stdin p of
        (Done u, p') \<Rightarrow> (Done (), p'\<lparr>stdin_buffer := stdin_buffer p' @ s\<rparr>)
      | (Fails e, p') \<Rightarrow> (Fails e, p')
      | (Blocks, p') \<Rightarrow> (Blocks, p'))"

definition stdin_flush :: "popen \<Rightarrow> unit io \<times> popen" where
  "stdin_flush p =
     (case next_stdin p of
        (Done u, p') \<Rightarrow>
          (Done (), p'\<lparr>stdin_pipe := stdin_pipe p' @ stdin_buffer p', stdin_buffer := []\<rparr>)
      | (Fails e, p') \<Rightarrow> (Fails e, p')
      | (Blocks, p') \<Rightarrow> (Blocks, p'))"

definition stdout_readline :: "popen \<Rightarrow> string io \<times> popen" where
  "stdout_readline p =
     (case stdout_script p of
        [] \<Rightarrow> (Done [], p)
      | r # rs \<Rightarrow> (r, p\<lparr>stdout_script := rs\<rparr>))"

subsection \<open>\<^verbatim>\<open>str.strip()\<close>\<close>

text \<open>The code points below 256 for which \<^verbatim>\<open>str.isspace\<close> holds.\<close>

definition isspace :: "char \<Rightarrow> bool" where
  "isspace c =
     (let n = of_char c :: nat
      in (9 \<le> n \<and> n \<le> 13) \<or> (28 \<le> n \<and> n \<le> 32) \<or> n = 133 \<or> n = 160)"

definition strip :: "string \<Rightarrow> string" where
  "strip s = rev (dropWhile isspace (rev (dropWhile isspace s)))"

section \<open>\<^verbatim>\<open>http_server.py\<close>: \<^verbatim>\<open>MCPHTTPBridge.handle_mcp_request\<close>\<close>

definition error_dict :: "string \<Rightarrow> json" where
  "error_dict msg = JDict [(''error'', JStr msg)]"

text \<open>
  \<^verbatim>\<open>except Exception as e: return {"error": str(e)}\<close>. A call that never returns is
  not an exception and stays what it is.
\<close>

fun except_Exception :: "json io \<times> 's \<Rightarrow> json io \<times> 's" where
  "except_Exception (Done v, s) = (Done v, s)"
| "except_Exception (Fails e, s) = (Done (error_dict (str e)), s)"
| "except_Exception (Blocks, s) = (Blocks, s)"

text \<open>
  The text appended to the serialised request is the source's literal \<^verbatim>\<open>"\\n"\<close>: two
  characters, a backslash and the letter n.
\<close>

definition request_terminator :: string where
  "request_terminator = [CHR 0x5C, CHR ''n'']"

text \<open>The body of the \<^verbatim>\<open>try\<close> block, run on the started process \<open>p\<close>.\<close>

definition round_trip :: "json_module \<Rightarrow> json \<Rightarrow> popen \<Rightarrow> json io \<times> popen" where
  "round_trip J request p =
     (case dumps J request of
        Inl e \<Rightarrow> (Fails e, p)
      | Inr text \<Rightarrow>
          (let request_json = text @ request_terminator
           in case stdin_write request_json p of
                (Fails e, p1) \<Rightarrow> (Fails e, p1)
              | (Blocks, p1) \<Rightarrow> (Blocks, p1)
              | (Done u, p1) \<Rightarrow>
                  (case stdin_flush p1 of
                     (Fails e, p2) \<Rightarrow> (Fails e, p2)
                   | (Blocks, p2) \<Rightarrow> (Blocks, p2)
                   | (Done u, p2) \<Rightarrow>
                       (case stdout_readline p2 of
                          (Fails e, p3) \<Rightarrow> (Fails e, p3)
                        | (Blocks, p3) \<Rightarrow> (Blocks, p3)
                        | (Done response_line, p3) \<Rightarrow>
                            if response_line \<noteq> [] then
                              (case loads J (strip response_line) of
                                 Inl e \<Rightarrow> (Fails e, p3)
                               | Inr reply \<Rightarrow> (Done reply, p3))
                            else (Done (error_dict ''No response from MCP server''), p3)))))"

text \<open>
  The method reads and changes nothing of \<^verbatim>\<open>self\<close> but \<^verbatim>\<open>self.process\<close>, so it is a
  state transformer on that attribute: \<open>None\<close> until \<^verbatim>\<open>start_mcp_server\<close> has stored a
  \<^verbatim>\<open>Popen\<close> object there. The calls to the logger are left out.
\<close>

definition handle_mcp_request ::
  "json_module \<Rightarrow> json \<Rightarrow> popen option \<Rightarrow> json io \<times> popen option" where
  "handle_mcp_request J request process =
     (case process of
        None \<Rightarrow> (Done (error_dict ''MCP server not started''), None)
      | Some p \<Rightarrow>
          (case except_Exception (round_trip J request p) of
             (r, p') \<Rightarrow> (r, Some p')))"

section \<open>\<^verbatim>\<open>http_transport.py\<close>\<close>

record HTTPTransportConfig =
  host :: string
  port :: int
  cors_origins :: "string list option"

text \<open>The dataclass constructor followed by \<^verbatim>\<open>__post_init__\<close>.\<close>

definition HTTPTransportConfig_init ::
  "string \<Rightarrow> int \<Rightarrow> string list option \<Rightarrow> HTTPTransportConfig" where
  "HTTPTransportConfig_init h p origins =
     \<lparr>host = h, port = p,
      cors_origins = (case origins of None \<Rightarrow> Some [''*''] | Some os \<Rightarrow> Some os)\<rparr>"

text \<open>
  The handler is a callable that runs on some state \<open>'s\<close> of its own: it returns, raises
  or never returns, and leaves a new state. The FastAPI application, its middleware and
  its routing table are the framework's and are left out; the route functions below are
  the closures that \<^verbatim>\<open>_setup_routes\<close> registers.
\<close>

type_synonym 's handler = "json \<Rightarrow> 's \<Rightarrow> json io \<times> 's"

record 's HTTPTransport =
  config :: HTTPTransportConfig
  mcp_handler :: "'s handler option"

definition HTTPTransport_init :: "HTTPTransportConfig \<Rightarrow> 's HTTPTransport" where
  "HTTPTransport_init c = \<lparr>config = c, mcp_handler = None\<rparr>"

definition set_mcp_handler :: "'s handler \<Rightarrow> 's HTTPTransport \<Rightarrow> 's HTTPTransport" where
  "set_mcp_handler h self = self\<lparr>mcp_handler := Some h\<rparr>"

text \<open>
  A request is read by the route through \<^verbatim>\<open>await request.json()\<close> only, which parses
  the body with \<^verbatim>\<open>json.loads\<close>.
\<close>

record Request =
  body :: string

definition request_json :: "json_module \<Rightarrow> Request \<Rightarrow> exn + json" where
  "request_json J request = loads J (body request)"

text \<open>\<^verbatim>\<open>POST /mcp\<close>. The whole body of the route is inside \<^verbatim>\<open>try ... except Exception\<close>.\<close>

definition handle_jsonrpc ::
  "json_module \<Rightarrow> 's HTTPTransport \<Rightarrow> Request \<Rightarrow> 's \<Rightarrow> json io \<times> 's" where
  "handle_jsonrpc J self request s =
     except_Exception
       (case request_json J request of
          Inl e \<Rightarrow> (Fails e, s)
        | Inr b \<Rightarrow>
            (case mcp_handler self of
               Some h \<Rightarrow> h b s
             | None \<Rightarrow> (Done (error_dict ''MCP handler not configured''), s)))"

text \<open>\<^verbatim>\<open>GET /health\<close>. The route reads neither the transport nor the state.\<close>

definition health_check :: "'s HTTPTransport \<Rightarrow> 's \<Rightarrow> json io \<times> 's" where
  "health_check self s =
     (Done (JDict [(''status'', JStr ''healthy''), (''transport'', JStr ''http'')]), s)"

text \<open>
  What the bridge does to the world outside it is recorded in a trace: a subprocess
  launched with its argument vector, and the HTTP server set to accept connections on a
  host and a port.
\<close>

datatype effect = Launched "string list" | Serving string int

text \<open>
  \<^verbatim>\<open>HTTPTransport.start\<close> hands the application to \<^verbatim>\<open>uvicorn\<close> and awaits
  \<^verbatim>\<open>server.serve()\<close>, which accepts connections until the server is shut down. How that
  call ends is the environment's: \<open>serve\<close>.
\<close>

definition HTTPTransport_start ::
  "(string \<Rightarrow> int \<Rightarrow> unit io) \<Rightarrow> 's HTTPTransport \<Rightarrow> effect list \<Rightarrow> unit io \<times> effect list" where
  "HTTPTransport_start serve self trace =
     (serve (host (config self)) (port (config self)),
      trace @ [Serving (host (config self)) (port (config self))])"

section \<open>\<^verbatim>\<open>http_server.py\<close>: starting the bridge\<close>

record MCPHTTPBridge =
  server_path :: string
  process :: "popen option"
  transport :: "popen option HTTPTransport option"

definition MCPHTTPBridge_init :: "string \<Rightarrow> MCPHTTPBridge" where
  "MCPHTTPBridge_init path = \<lparr>server_path = path, process = None, transport = None\<rparr>"

text \<open>
  \<^verbatim>\<open>subprocess.Popen\<close> returns the process object or raises (the executable is missing,
  for one); which of the two is the environment's: \<open>Popen\<close>. The exception is logged and
  raised again.
\<close>

definition start_mcp_server ::
  "(string list \<Rightarrow> exn + popen) \<Rightarrow> MCPHTTPBridge \<times> effect list \<Rightarrow>
     unit io \<times> MCPHTTPBridge \<times> effect list" where
  "start_mcp_server Popen st =
     (case st of (self, trace) \<Rightarrow>
        (case Popen [''node'', server_path self] of
           Inl e \<Rightarrow> (Fails e, self, trace)
         | Inr p \<Rightarrow>
             (Done (), self\<lparr>process := Some p\<rparr>,
              trace @ [Launched [''node'', server_path self]])))"

definition start_http_transport ::
  "json_module \<Rightarrow> (string \<Rightarrow> int \<Rightarrow> unit io) \<Rightarrow> string \<Rightarrow> int \<Rightarrow>
     MCPHTTPBridge \<times> effect list \<Rightarrow> unit io \<times> MCPHTTPBridge \<times> effect list" where
  "start_http_transport J serve h p st =
     (case st of (self, trace) \<Rightarrow>
        (let config = HTTPTransportConfig_init h p None;
             t = set_mcp_handler (handle_mcp_request J) (HTTPTransport_init config);
             self' = self\<lparr>transport := Some t\<rparr>
         in case HTTPTransport_start serve t trace of
              (r, trace') \<Rightarrow> (r, self', trace')))"

text \<open>\<^verbatim>\<open>MCPHTTPBridge.start\<close>: an exception of the first \<^verbatim>\<open>await\<close> ends the method.\<close>

definition MCPHTTPBridge_start ::
  "json_module \<Rightarrow> (string list \<Rightarrow> exn + popen) \<Rightarrow> (string \<Rightarrow> int \<Rightarrow> unit io) \<Rightarrow>
     string \<Rightarrow> int \<Rightarrow> MCPHTTPBridge \<times> effect list \<Rightarrow> unit io \<times> MCPHTTPBridge \<times> effect list" where
  "MCPHTTPBridge_start J Popen serve h p st =
     (case start_mcp_server Popen st of
        (Done u, st') \<Rightarrow> start_http_transport J serve h p st'
      | (Fails e, st') \<Rightarrow> (Fails e, st')
      | (Blocks, st') \<Rightarrow> (Blocks, st'))"

section \<open>Requests one after another\<close>

text \<open>
  The route awaits \<^verbatim>\<open>handle_mcp_request\<close>, whose body has no \<^verbatim>\<open>await\<close>: on the one
  event loop that serves the application, a call of the handler runs from its first line
  to its \<^verbatim>\<open>return\<close> before any other call starts. Requests that are outstanding together
  are therefore handled one after another on the same pipes, in the order in which the
  loop starts the calls. A call that never returns keeps the later ones from starting.
\<close>

fun handle_requests ::
  "json_module \<Rightarrow> json list \<Rightarrow> popen option \<Rightarrow> json io list \<times> popen option" where
  "handle_requests J [] proc = ([], proc)"
| "handle_requests J (request # requests) proc =
     (case handle_mcp_request J request proc of
        (Blocks, proc') \<Rightarrow> ([Blocks], proc')
      | (r, proc') \<Rightarrow>
          (case handle_requests J requests proc' of
             (rs, proc'') \<Rightarrow> (r # rs, proc'')))"

section \<open>Vocabulary of the properties\<close>

text \<open>\<^verbatim>\<open>message.get("id")\<close> of a message that is a dictionary.\<close>

fun json_id :: "json \<Rightarrow> json option" where
  "json_id (JDict kvs) = map_of kvs ''id''"
| "json_id v = None"

fun is_dict :: "json \<Rightarrow> bool" where
  "is_dict (JDict kvs) = True"
| "is_dict v = False"

text \<open>What a caller gets for a reply line that is not empty.\<close>

definition reply_of :: "json_module \<Rightarrow> string \<Rightarrow> json" where
  "reply_of J line =
     (case loads J (strip line) of Inl e \<Rightarrow> error_dict (str e) | Inr reply \<Rightarrow> reply)"

text \<open>The next \<^verbatim>\<open>write\<close> and the next \<^verbatim>\<open>flush\<close> on \<^verbatim>\<open>stdin\<close> both succeed.\<close>

definition stdin_accepts :: "popen \<Rightarrow> bool" where
  "stdin_accepts p = list_all (\<lambda>r. r = Done ()) (take 2 (stdin_script p))"

text \<open>
  \<^verbatim>\<open>readline\<close> is at end of file: the subprocess has closed its \<^verbatim>\<open>stdout\<close>, as it
  does when it exits, without a further line.
\<close>

definition at_eof :: "popen \<Rightarrow> bool" where
  "at_eof p = (case stdout_script p of [] \<Rightarrow> True | r # rest \<Rightarrow> r = Done [])"

text \<open>The exception, if any, that the next \<^verbatim>\<open>write\<close> or the \<^verbatim>\<open>flush\<close> after it raises.\<close>

fun stdin_raises :: "unit io list \<Rightarrow> exn option" where
  "stdin_raises (Fails e # rest) = Some e"
| "stdin_raises (Done u # Fails e # rest) = Some e"
| "stdin_raises script = None"

text \<open>No pipe call of the script is one that never returns.\<close>

definition pipes_respond :: "popen \<Rightarrow> bool" where
  "pipes_respond p = (Blocks \<notin> set (stdin_script p) \<and> Blocks \<notin> set (stdout_script p))"

section \<open>Concrete requests and peers\<close>

definition request_1 :: json where
  "request_1 = JDict [(''id'', JInt 1), (''method'', JStr ''ping'')]"

definition request_2 :: json where
  "request_2 = JDict [(''id'', JInt 2), (''method'', JStr ''ping'')]"

definition request_1_text :: string where
  \<open>request_1_text = ''{"id": 1, "method": "ping"}''\<close>

definition reply_1 :: json where
  "reply_1 = JDict [(''id'', JInt 1), (''result'', JInt 1)]"

definition reply_2 :: json where
  "reply_2 = JDict [(''id'', JInt 2), (''result'', JInt 2)]"

definition reply_line_1 :: string where
  \<open>reply_line_1 = ''{"id": 1, "result": 1}'' @ [CHR 0x0A]\<close>

definition reply_line_2 :: string where
  \<open>reply_line_2 = ''{"id": 2, "result": 2}'' @ [CHR 0x0A]\<close>

definition line_42 :: string where
  "line_42 = ''42'' @ [CHR 0x0A]"

definition broken_pipe :: exn where
  "broken_pipe = PyException ''[Errno 32] Broken pipe''"

text \<open>A started subprocess whose \<^verbatim>\<open>stdout\<close> will behave as the script says.\<close>

definition peer :: "string io list \<Rightarrow> popen" where
  "peer script =
     \<lparr>stdin_buffer = [], stdin_pipe = [], stdin_script = [], stdout_script = script\<rparr>"

text \<open>A transport as its constructor leaves it: no handler set.\<close>

definition transport_0 :: "popen option HTTPTransport" where
  "transport_0 = HTTPTransport_init (HTTPTransportConfig_init ''0.0.0.0'' 8080 None)"

text \<open>
  Two environments for the launch, one where \<^verbatim>\<open>node\<close> is not found and one where it
  starts, and a server that accepts connections for ever.
\<close>

definition launch_error :: exn where
  "launch_error =
     PyException (''[Errno 2] No such file or directory: '' @ [CHR 0x27] @ ''node'' @ [CHR 0x27])"

definition no_popen :: "string list \<Rightarrow> exn + popen" where
  "no_popen argv = Inl launch_error"

definition ok_popen :: "string list \<Rightarrow> exn + popen" where
  "ok_popen argv = Inr (peer [])"

definition serve_forever :: "string \<Rightarrow> int \<Rightarrow> unit io" where
  "serve_forever h p = Blocks"

definition index_js :: string where
  "index_js = ''../build/index.js''"

section \<open>A fragment of Python's \<^verbatim>\<open>json\<close> module\<close>

text \<open>
  The properties of the bridge are proved for every \<open>json_module\<close>. To evaluate the
  bridge on concrete requests and reply lines, \<open>py_json\<close> implements the module on a
  fragment: \<^verbatim>\<open>dumps\<close> with its default arguments on the values of type \<open>json\<close>, and
  \<^verbatim>\<open>loads\<close> on texts made of objects, arrays, integers, strings without escape
  sequences, \<^verbatim>\<open>true\<close>, \<^verbatim>\<open>false\<close> and \<^verbatim>\<open>null\<close>. Where \<open>py_loads\<close> returns a value,
  it is the value \<^verbatim>\<open>json.loads\<close> returns. Where it fails, it carries the message Python
  gives for a text that does not start with a JSON value, such as the empty text; this
  file evaluates it on no other failing text.
\<close>

subsection \<open>\<^verbatim>\<open>json.dumps\<close>\<close>

text \<open>
  With \<^verbatim>\<open>ensure_ascii\<close>, a backslash, a double quote and every character outside the
  printable ASCII range are escaped; items are separated by a comma and a space, a key
  from its value by a colon and a space.
\<close>

definition hex_digit :: "nat \<Rightarrow> char" where
  "hex_digit n = ''0123456789abcdef'' ! (n mod 16)"

definition escape_char :: "char \<Rightarrow> string" where
  "escape_char c =
     (let n = of_char c :: nat
      in if c = CHR 0x5C then [CHR 0x5C, CHR 0x5C]
         else if c = CHR 0x22 then [CHR 0x5C, CHR 0x22]
         else if n = 8 then [CHR 0x5C, CHR ''b'']
         else if n = 12 then [CHR 0x5C, CHR ''f'']
         else if n = 10 then [CHR 0x5C, CHR ''n'']
         else if n = 13 then [CHR 0x5C, CHR ''r'']
         else if n = 9 then [CHR 0x5C, CHR ''t'']
         else if n < 32 \<or> 126 < n
           then [CHR 0x5C, CHR ''u'', CHR ''0'', CHR ''0'', hex_digit (n div 16), hex_digit n]
         else [c])"

definition encode_str :: "string \<Rightarrow> string" where
  "encode_str s = [CHR 0x22] @ concat (map escape_char s) @ [CHR 0x22]"

fun decimal :: "nat \<Rightarrow> string" where
  "decimal n =
     (if n < 10 then [char_of (48 + n)]
      else decimal (n div 10) @ [char_of (48 + n mod 10)])"

declare decimal.simps [simp del]

definition encode_int :: "int \<Rightarrow> string" where
  "encode_int i = (if i < 0 then CHR ''-'' # decimal (nat (- i)) else decimal (nat i))"

fun encode :: "json \<Rightarrow> string"
  and encode_items :: "json list \<Rightarrow> string"
  and encode_pairs :: "(string \<times> json) list \<Rightarrow> string" where
  "encode JNull = ''null''"
| "encode (JBool b) = (if b then ''true'' else ''false'')"
| "encode (JInt i) = encode_int i"
| "encode (JStr s) = encode_str s"
| "encode (JList vs) = ''['' @ encode_items vs @ '']''"
| "encode (JDict kvs) = ''{'' @ encode_pairs kvs @ ''}''"
| "encode_items [] = []"
| "encode_items [v] = encode v"
| "encode_items (v # w # vs) = encode v @ '', '' @ encode_items (w # vs)"
| "encode_pairs [] = []"
| "encode_pairs [(k, v)] = encode_str k @ '': '' @ encode v"
| "encode_pairs ((k, v) # kv # kvs) =
     encode_str k @ '': '' @ encode v @ '', '' @ encode_pairs (kv # kvs)"

subsection \<open>\<^verbatim>\<open>json.loads\<close>\<close>

text \<open>
  A recursive-descent parser. Its first argument bounds the number of nested calls;
  \<open>decode\<close> starts it with the length of the text plus one, and a parse that uses the
  bound up fails.
\<close>

definition json_ws :: "char \<Rightarrow> bool" where
  "json_ws c = (c = CHR '' '' \<or> c = CHR 0x09 \<or> c = CHR 0x0A \<or> c = CHR 0x0D)"

definition skip_ws :: "string \<Rightarrow> string" where
  "skip_ws s = dropWhile json_ws s"

definition is_digit :: "char \<Rightarrow> bool" where
  "is_digit c = (48 \<le> (of_char c :: nat) \<and> (of_char c :: nat) \<le> 57)"

definition digits_value :: "string \<Rightarrow> nat" where
  "digits_value ds = foldl (\<lambda>acc c. 10 * acc + (of_char c - 48)) 0 ds"

text \<open>A number: \<^verbatim>\<open>-?(0|[1-9][0-9]*)\<close>, not followed by a fraction or an exponent.\<close>

definition parse_nat :: "string \<Rightarrow> (nat \<times> string) option" where
  "parse_nat s =
     (case s of
        [] \<Rightarrow> None
      | c # cs \<Rightarrow>
          if \<not> is_digit c then None
          else
            (let ds = (if c = CHR ''0'' then [c] else takeWhile is_digit s);
                 rest = drop (length ds) s
             in case rest of
                  [] \<Rightarrow> Some (digits_value ds, rest)
                | d # _ \<Rightarrow>
                    if d = CHR ''.'' \<or> d = CHR ''e'' \<or> d = CHR ''E'' then None
                    else Some (digits_value ds, rest)))"

definition parse_int :: "string \<Rightarrow> (json \<times> string) option" where
  "parse_int s =
     (case s of
        [] \<Rightarrow> None
      | c # cs \<Rightarrow>
          if c = CHR ''-'' then map_option (\<lambda>(n, r). (JInt (- int n), r)) (parse_nat cs)
          else map_option (\<lambda>(n, r). (JInt (int n), r)) (parse_nat s))"

text \<open>A string without escape sequences, read after its opening quote.\<close>

fun parse_str :: "string \<Rightarrow> (string \<times> string) option" where
  "parse_str [] = None"
| "parse_str (c # cs) =
     (if c = CHR 0x22 then Some ([], cs)
      else if c = CHR 0x5C \<or> (of_char c :: nat) < 32 then None
      else map_option (\<lambda>(k, r). (c # k, r)) (parse_str cs))"

text \<open>\<^verbatim>\<open>dict(pairs)\<close>: a repeated key keeps its first place and its last value.\<close>

fun dict_store :: "string \<Rightarrow> json \<Rightarrow> (string \<times> json) list \<Rightarrow> (string \<times> json) list" where
  "dict_store k v [] = [(k, v)]"
| "dict_store k v ((k', v') # d) =
     (if k' = k then (k, v) # d else (k', v') # dict_store k v d)"

definition dict_of :: "(string \<times> json) list \<Rightarrow> (string \<times> json) list" where
  "dict_of kvs = foldl (\<lambda>d (k, v). dict_store k v d) [] kvs"

fun parse_value :: "nat \<Rightarrow> string \<Rightarrow> (json \<times> string) option"
  and parse_items :: "nat \<Rightarrow> string \<Rightarrow> (json list \<times> string) option"
  and parse_pairs :: "nat \<Rightarrow> string \<Rightarrow> ((string \<times> json) list \<times> string) option" where
  "parse_value 0 s = None"
| "parse_value (Suc n) s =
     (case s of
        [] \<Rightarrow> None
      | c # cs \<Rightarrow>
          if c = CHR ''n'' then (if take 3 cs = ''ull'' then Some (JNull, drop 3 cs) else None)
          else if c = CHR ''t'' then
            (if take 3 cs = ''rue'' then Some (JBool True, drop 3 cs) else None)
          else if c = CHR ''f'' then
            (if take 4 cs = ''alse'' then Some (JBool False, drop 4 cs) else None)
          else if c = CHR 0x22 then map_option (\<lambda>(k, r). (JStr k, r)) (parse_str cs)
          else if c = CHR ''['' then
            (case skip_ws cs of
               [] \<Rightarrow> None
             | d # r \<Rightarrow>
                 if d = CHR '']'' then Some (JList [], r)
                 else map_option (\<lambda>(vs, r'). (JList vs, r')) (parse_items n (d # r)))
          else if c = CHR ''{'' then
            (case skip_ws cs of
               [] \<Rightarrow> None
             | d # r \<Rightarrow>
                 if d = CHR ''}'' then Some (JDict [], r)
                 else map_option (\<lambda>(kvs, r'). (JDict (dict_of kvs), r')) (parse_pairs n (d # r)))
          else parse_int s)"
| "parse_items 0 s = None"
| "parse_items (Suc n) s =
     (case parse_value n s of
        None \<Rightarrow> None
      | Some (v, r) \<Rightarrow>
          (case skip_ws r of
             [] \<Rightarrow> None
           | d # r' \<Rightarrow>
               if d = CHR '','' then
                 map_option (\<lambda>(vs, r''). (v # vs, r'')) (parse_items n (skip_ws r'))
               else if d = CHR '']'' then Some ([v], r')
               else None))"
| "parse_pairs 0 s = None"
| "parse_pairs (Suc n) s =
     (case s of
        [] \<Rightarrow> None
      | q # cs \<Rightarrow>
          if q \<noteq> CHR 0x22 then None
          else
            (case parse_str cs of
               None \<Rightarrow> None
             | Some (k, r) \<Rightarrow>
                 (case skip_ws r of
                    [] \<Rightarrow> None
                  | colon # r1 \<Rightarrow>
                      if colon \<noteq> CHR '':'' then None
                      else
                        (case parse_value n (skip_ws r1) of
                           None \<Rightarrow> None
                         | Some (v, r2) \<Rightarrow>
                             (case skip_ws r2 of
                                [] \<Rightarrow> None
                              | d # r3 \<Rightarrow>
                                  if d = CHR '','' then
                                    map_option (\<lambda>(kvs, r4). ((k, v) # kvs, r4))
                                      (parse_pairs n (skip_ws r3))
                                  else if d = CHR ''}'' then Some ([(k, v)], r3)
                                  else None)))))"

definition decode :: "string \<Rightarrow> json option" where
  "decode s =
     (case parse_value (Suc (length s)) (skip_ws s) of
        None \<Rightarrow> None
      | Some (v, r) \<Rightarrow> if skip_ws r = [] then Some v else None)"

definition py_dumps :: "json \<Rightarrow> exn + string" where
  "py_dumps v = Inr (encode v)"

definition py_loads :: "string \<Rightarrow> exn + json" where
  "py_loads s =
     (case decode s of
        Some v \<Rightarrow> Inr v
      | None \<Rightarrow> Inl (PyException ''Expecting value: line 1 column 1 (char 0)''))"

definition py_json :: json_module where
  "py_json = \<lparr>dumps = py_dumps, loads = py_loads\<rparr>"

text \<open>The bridge of \<^verbatim>\<open>main\<close>, started in each of the two environments.\<close>

definition started :: "unit io \<times> MCPHTTPBridge \<times> effect list" where
  "started = MCPHTTPBridge_start py_json ok_popen serve_forever ''0.0.0.0'' 8080
     (MCPHTTPBridge_init index_js, [])"

definition not_started :: "unit io \<times> MCPHTTPBridge \<times> effect list" where
  "not_started = MCPHTTPBridge_start py_json no_popen serve_forever ''0.0.0.0'' 8080
     (MCPHTTPBridge_init index_js, [])"

section \<open>The routes on the event loop\<close>

text \<open>
  \<^verbatim>\<open>POST /mcp\<close> and \<^verbatim>\<open>GET /health\<close> are served by the one event loop of the application.
  Once the body of a \<^verbatim>\<open>POST\<close> has been read, its route runs the handler without a
  suspension point, and the health route has none at all: the loop runs one route call to
  its end before it starts the next, and a call that never returns keeps every later
  request, of either kind, from being answered.
\<close>

datatype http_request = Post Request | Health

fun route :: "json_module \<Rightarrow> 's HTTPTransport \<Rightarrow> http_request \<Rightarrow> 's \<Rightarrow> json io \<times> 's" where
  "route J self (Post request) s = handle_jsonrpc J self request s"
| "route J self Health s = health_check self s"

fun event_loop ::
  "json_module \<Rightarrow> 's HTTPTransport \<Rightarrow> http_request list \<Rightarrow> 's \<Rightarrow> json io list \<times> 's" where
  "event_loop J self [] s = ([], s)"
| "event_loop J self (r # rs) s =
     (case route J self r s of
        (Blocks, s') \<Rightarrow> ([Blocks], s')
      | (x, s') \<Rightarrow>
          (case event_loop J self rs s' of
             (xs, s'') \<Rightarrow> (x # xs, s'')))"

text \<open>
  The body of the health reply, and the transport as \<^verbatim>\<open>start_http_transport\<close> leaves
  it, with the bridge's handler set.
\<close>

definition healthy :: json where
  "healthy = JDict [(''status'', JStr ''healthy''), (''transport'', JStr ''http'')]"

definition bridge_transport :: "popen option HTTPTransport" where
  "bridge_transport = set_mcp_handler (handle_mcp_request py_json) transport_0"

section \<open>\<^verbatim>\<open>http_transport.py\<close>: the event stream of \<^verbatim>\<open>GET /mcp/stream\<close>\<close>

text \<open>
  The generator \<^verbatim>\<open>event_stream\<close> suspends at \<^verbatim>\<open>await asyncio.sleep(30)\<close>. What
  happens there is the environment's: the sleep ends, no sooner than the delay asked for
  and later by as much as the event loop is late, or the task is cancelled (the client
  has gone) and \<^verbatim>\<open>CancelledError\<close> is raised at the \<^verbatim>\<open>await\<close>. The clock of the loop is
  read in milliseconds, as a natural number; the source reads it as a float of seconds.
\<close>

datatype thrown = CancelledError | Error exn









section \<open>Properties of \<^verbatim>\<open>handle_mcp_request\<close>\<close>

lemma except_Exception_not_Fails: "fst (except_Exception x) \<noteq> Fails e"
  by (cases x rule: except_Exception.cases) simp_all

lemma handle_mcp_request_Some:
  "handle_mcp_request J request (Some p) =
     (fst (except_Exception (round_trip J request p)),
      Some (snd (except_Exception (round_trip J request p))))"
  by (simp add: handle_mcp_request_def split: prod.splits)

lemma handle_mcp_request_None:
  "handle_mcp_request J request None = (Done (error_dict ''MCP server not started''), None)"
  by (simp add: handle_mcp_request_def)

lemma fst_except_Exception:
  "fst (except_Exception x) =
     (case fst x of Done v \<Rightarrow> Done v | Fails e \<Rightarrow> Done (error_dict (str e)) | Blocks \<Rightarrow> Blocks)"
  by (cases x rule: except_Exception.cases) simp_all

lemma snd_except_Exception: "snd (except_Exception x) = snd x"
  by (cases x rule: except_Exception.cases) simp_all

lemma handle_mcp_request_not_Fails: "fst (handle_mcp_request J request proc) \<noteq> Fails e"
  by (cases proc)
    (simp_all add: handle_mcp_request_None handle_mcp_request_Some except_Exception_not_Fails)

lemmas pipe_defs = stdin_write_def stdin_flush_def next_stdin_def stdout_readline_def

lemma round_trip_Blocks:
  "fst (round_trip J request p) = Blocks \<Longrightarrow> \<not> pipes_respond p"
  by (auto simp: round_trip_def pipe_defs pipes_respond_def Let_def
      split: sum.splits list.splits io.splits prod.splits if_splits)

text \<open>The exact outcome when the request is serialised and stdin takes it.\<close>

lemma round_trip_sent:
  assumes "dumps J request = Inr t" and "stdin_accepts p"
  shows "fst (round_trip J request p) =
     (case stdout_script p of
        [] \<Rightarrow> Done (error_dict ''No response from MCP server'')
      | Done line # rest \<Rightarrow>
          if line \<noteq> [] then (case loads J (strip line) of Inl e \<Rightarrow> Fails e | Inr v \<Rightarrow> Done v)
          else Done (error_dict ''No response from MCP server'')
      | Fails e # rest \<Rightarrow> Fails e
      | Blocks # rest \<Rightarrow> Blocks)"
  using assms
  by (auto simp: round_trip_def pipe_defs Let_def stdin_accepts_def
      split: sum.splits list.splits io.splits prod.splits if_splits)

lemma round_trip_sent_state:
  assumes "dumps J request = Inr t" and "stdin_accepts p"
  shows "snd (round_trip J request p) =
     p\<lparr>stdin_buffer := [], stdin_pipe := stdin_pipe p @ stdin_buffer p @ t @ request_terminator,
       stdin_script := drop 2 (stdin_script p), stdout_script := tl (stdout_script p)\<rparr>"
  using assms
  by (auto simp: round_trip_def pipe_defs Let_def stdin_accepts_def
      split: sum.splits list.splits io.splits prod.splits if_splits)

lemma round_trip_Done_first:
  "fst (round_trip J request p) = Done v \<Longrightarrow>
     v = error_dict ''No response from MCP server'' \<or>
     (\<exists>line rest. stdout_script p = Done line # rest \<and> line \<noteq> [] \<and>
        loads J (strip line) = Inr v)"
  by (auto simp: round_trip_def pipe_defs Let_def
      split: sum.splits list.splits io.splits prod.splits if_splits)

lemma round_trip_stdin_raises:
  assumes "dumps J request = Inr t" and "stdin_raises (stdin_script p) = Some e"
  shows "fst (round_trip J request p) = Fails e"
  using assms
  by (cases "stdin_script p" rule: stdin_raises.cases)
    (auto simp: round_trip_def pipe_defs Let_def)

lemma handle_mcp_request_answered:
  assumes "dumps J request = Inr t" and "stdin_accepts p"
    and "stdout_script p = Done line # rest" and "line \<noteq> []"
  shows "handle_mcp_request J request (Some p) =
     (Done (reply_of J line),
      Some (p\<lparr>stdin_buffer := [],
              stdin_pipe := stdin_pipe p @ stdin_buffer p @ t @ request_terminator,
              stdin_script := drop 2 (stdin_script p), stdout_script := rest\<rparr>))"
  using assms
  by (simp add: handle_mcp_request_Some fst_except_Exception snd_except_Exception
      round_trip_sent round_trip_sent_state reply_of_def split: sum.splits)

lemma all_Done_accepts: "set (stdin_script p) \<subseteq> {Done ()} \<Longrightarrow> stdin_accepts p"
  by (auto simp: stdin_accepts_def list_all_iff dest: in_set_takeD)

text \<open>What the handler can return.\<close>

lemma handle_mcp_request_Done:
  assumes ret: "fst (handle_mcp_request J request proc) = Done v"
  shows "(\<exists>msg. v = JDict [(''error'', JStr msg)]) \<or>
      (\<exists>p line rest. proc = Some p \<and> stdout_script p = Done line # rest \<and>
         loads J (strip line) = Inr v)"
proof (cases proc)
  case None
  with ret show ?thesis by (auto simp: handle_mcp_request_None error_dict_def)
next
  case (Some p)
  show ?thesis
  proof (cases "fst (round_trip J request p)")
    case (Done w)
    with ret Some have "w = v"
      by (simp add: handle_mcp_request_Some fst_except_Exception)
    with Done round_trip_Done_first [of J request p v] Some show ?thesis
      by (auto simp: error_dict_def)
  next
    case (Fails x)
    with ret Some show ?thesis
      by (auto simp: handle_mcp_request_Some fst_except_Exception error_dict_def)
  next
    case Blocks
    with ret Some show ?thesis
      by (simp add: handle_mcp_request_Some fst_except_Exception)
  qed
qed

subsection \<open>What reaches the subprocess\<close>

text \<open>
  When the request is serialised and \<^verbatim>\<open>stdin\<close> takes the write and the flush, the pipe
  receives the serialised request followed by the two characters backslash and n.
\<close>

lemma request_written:
  assumes "dumps J request = Inr t" and "stdin_accepts p"
  shows "map_option stdin_pipe (snd (handle_mcp_request J request (Some p))) =
     Some (stdin_pipe p @ stdin_buffer p @ t @ [CHR 0x5C, CHR ''n''])"
  using assms
  by (simp add: handle_mcp_request_Some snd_except_Exception round_trip_sent_state
      request_terminator_def)

text \<open>
  C2 says that the text written to the subprocess's \<^verbatim>\<open>stdin\<close> is the request's JSON
  serialisation followed by exactly one newline character. The code does otherwise: for
  the request \<^verbatim>\<open>{"id": 1, "method": "ping"}\<close>, whose serialisation is that same text, the
  pipe receives the serialisation followed by a backslash and the letter n, and no
  newline character at all.
\<close>

theorem request_line_has_no_newline:
  "py_dumps request_1 = Inr request_1_text \<and>
   map_option stdin_pipe
     (snd (handle_mcp_request py_json request_1 (Some (peer [Done reply_line_1])))) =
     Some (request_1_text @ [CHR 0x5C, CHR ''n'']) \<and>
   CHR 0x0A \<notin> set (request_1_text @ [CHR 0x5C, CHR ''n''])"
  by code_simp

subsection \<open>No subprocess\<close>

text \<open>
  C4, as the code has it: for every request handled while no subprocess has been started,
  the handler returns at once, with the payload \<^verbatim>\<open>{"error": "MCP server not started"}\<close>,
  and the process attribute stays empty.
\<close>

theorem not_started_error:
  "handle_mcp_request J request None =
     (Done (JDict [(''error'', JStr ''MCP server not started'')]), None)"
  by (simp add: handle_mcp_request_def error_dict_def)

text \<open>
  The payload is not the one C4 names, whose message is written
  \<^verbatim>\<open>mcp server not started\<close>.
\<close>

theorem not_started_counterexample:
  "fst (handle_mcp_request py_json request_1 None) \<noteq>
     Done (JDict [(''error'', JStr ''mcp server not started'')])"
  by (simp add: handle_mcp_request_def error_dict_def)

subsection \<open>Completion\<close>

text \<open>
  C3, as the code has it: the handler has no timeout. A request handled on a started
  subprocess completes whenever no pipe call is one that never returns, and yields a
  dictionary whose only key is \<^verbatim>\<open>error\<close> or the reply parsed from the line that
  \<^verbatim>\<open>readline\<close> returned; and when the request has been written and flushed and
  \<^verbatim>\<open>readline\<close> never returns, the handler never returns either.
\<close>

theorem completes_unless_blocked:
  "(pipes_respond p \<longrightarrow>
      (\<exists>v. fst (handle_mcp_request J request (Some p)) = Done v \<and>
         ((\<exists>msg. v = JDict [(''error'', JStr msg)]) \<or>
          (\<exists>line rest. stdout_script p = Done line # rest \<and>
             loads J (strip line) = Inr v)))) \<and>
   (dumps J request = Inr t \<and> stdin_accepts p \<and> stdout_script p = Blocks # rest \<longrightarrow>
      fst (handle_mcp_request J request (Some p)) = Blocks)"
proof (intro conjI impI)
  assume live: "pipes_respond p"
  show "\<exists>v. fst (handle_mcp_request J request (Some p)) = Done v \<and>
         ((\<exists>msg. v = JDict [(''error'', JStr msg)]) \<or>
          (\<exists>line rest. stdout_script p = Done line # rest \<and>
             loads J (strip line) = Inr v))"
  proof (cases "fst (handle_mcp_request J request (Some p))")
    case (Done v)
    with handle_mcp_request_Done [of J request "Some p" v] show ?thesis by auto
  next
    case (Fails e)
    then show ?thesis using handle_mcp_request_not_Fails by blast
  next
    case Blocks
    then have "fst (round_trip J request p) = Blocks"
      by (simp add: handle_mcp_request_Some fst_except_Exception split: io.splits)
    with live show ?thesis using round_trip_Blocks by blast
  qed
next
  assume "dumps J request = Inr t \<and> stdin_accepts p \<and> stdout_script p = Blocks # rest"
  then show "fst (handle_mcp_request J request (Some p)) = Blocks"
    by (simp add: handle_mcp_request_Some fst_except_Exception round_trip_sent)
qed

text \<open>
  Both cases of the theorem occur: a peer that answers, and a peer that keeps its
  \<^verbatim>\<open>stdout\<close> open and writes nothing.
\<close>

theorem completes_unless_blocked_witness:
  "pipes_respond (peer [Done reply_line_1]) \<and>
   fst (handle_mcp_request py_json request_1 (Some (peer [Done reply_line_1]))) = Done reply_1 \<and>
   dumps py_json request_1 = Inr request_1_text \<and> stdin_accepts (peer [Blocks]) \<and>
   stdout_script (peer [Blocks]) = Blocks # [] \<and>
   fst (handle_mcp_request py_json request_1 (Some (peer [Blocks]))) = Blocks"
proof -
  have a: "pipes_respond (peer [Done reply_line_1])" by code_simp
  have b: "dumps py_json request_1 = Inr request_1_text \<and> stdin_accepts (peer [Blocks]) \<and>
    stdout_script (peer [Blocks]) = Blocks # []" by code_simp
  have c: "fst (handle_mcp_request py_json request_1 (Some (peer [Done reply_line_1]))) =
    Done reply_1" by code_simp
  from completes_unless_blocked [of "peer [Blocks]" py_json request_1 request_1_text "[]"] b
  have d: "fst (handle_mcp_request py_json request_1 (Some (peer [Blocks]))) = Blocks" by blast
  from completes_unless_blocked [of "peer [Done reply_line_1]" py_json request_1] a
  have "\<exists>v. fst (handle_mcp_request py_json request_1 (Some (peer [Done reply_line_1]))) = Done v"
    by blast
  with a b c d show ?thesis by blast
qed

text \<open>
  C3 as stated fails: with a peer that keeps its \<^verbatim>\<open>stdout\<close> open and writes nothing, the
  request never completes, whatever time passes.
\<close>

theorem no_timeout_counterexample:
  "fst (handle_mcp_request py_json request_1 (Some (peer [Blocks]))) = Blocks"
  by code_simp

subsection \<open>A subprocess that has gone\<close>

text \<open>
  C5, as the code has it: when the request is serialised, \<^verbatim>\<open>stdin\<close> takes the write and
  the flush, and \<^verbatim>\<open>stdout\<close> is at end of file, the handler returns
  \<^verbatim>\<open>{"error": "No response from MCP server"}\<close>; when the write or the flush raises, it
  returns \<^verbatim>\<open>{"error": str(e)}\<close> for the exception raised.
\<close>

theorem crashed_peer_error:
  assumes "dumps J request = Inr t"
  shows "(stdin_accepts p \<and> at_eof p \<longrightarrow>
            fst (handle_mcp_request J request (Some p)) =
              Done (JDict [(''error'', JStr ''No response from MCP server'')])) \<and>
         (stdin_raises (stdin_script p) = Some e \<longrightarrow>
            fst (handle_mcp_request J request (Some p)) =
              Done (JDict [(''error'', JStr (str e))]))"
proof (intro conjI impI)
  assume "stdin_accepts p \<and> at_eof p"
  with assms show "fst (handle_mcp_request J request (Some p)) =
      Done (JDict [(''error'', JStr ''No response from MCP server'')])"
    by (auto simp: handle_mcp_request_Some fst_except_Exception round_trip_sent at_eof_def
        error_dict_def split: list.splits)
next
  assume "stdin_raises (stdin_script p) = Some e"
  with assms have "fst (round_trip J request p) = Fails e"
    by (rule round_trip_stdin_raises)
  then show "fst (handle_mcp_request J request (Some p)) = Done (JDict [(''error'', JStr (str e))])"
    by (simp add: handle_mcp_request_Some fst_except_Exception error_dict_def)
qed

text \<open>
  Both cases occur: a peer at end of file whose \<^verbatim>\<open>stdin\<close> still takes text, and a peer
  whose pipe breaks at the flush.
\<close>

theorem crashed_peer_error_witness:
  "dumps py_json request_1 = Inr request_1_text \<and>
   stdin_accepts (peer []) \<and> at_eof (peer []) \<and>
   fst (handle_mcp_request py_json request_1 (Some (peer []))) =
     Done (JDict [(''error'', JStr ''No response from MCP server'')]) \<and>
   stdin_raises (stdin_script ((peer [])\<lparr>stdin_script := [Done (), Fails broken_pipe]\<rparr>)) =
     Some broken_pipe \<and>
   fst (handle_mcp_request py_json request_1
          (Some ((peer [])\<lparr>stdin_script := [Done (), Fails broken_pipe]\<rparr>))) =
     Done (JDict [(''error'', JStr ''[Errno 32] Broken pipe'')])"
proof -
  have a: "dumps py_json request_1 = Inr request_1_text" by code_simp
  have b: "stdin_accepts (peer []) \<and> at_eof (peer [])" by code_simp
  have c: "stdin_raises (stdin_script ((peer [])\<lparr>stdin_script := [Done (), Fails broken_pipe]\<rparr>)) =
     Some broken_pipe" by code_simp
  have d: "str broken_pipe = ''[Errno 32] Broken pipe''" by code_simp
  from crashed_peer_error [OF a, of "peer []"] b
  have e: "fst (handle_mcp_request py_json request_1 (Some (peer []))) =
     Done (JDict [(''error'', JStr ''No response from MCP server'')])" by blast
  from crashed_peer_error [OF a, of "(peer [])\<lparr>stdin_script := [Done (), Fails broken_pipe]\<rparr>"
      broken_pipe] c d
  have f: "fst (handle_mcp_request py_json request_1
          (Some ((peer [])\<lparr>stdin_script := [Done (), Fails broken_pipe]\<rparr>))) =
     Done (JDict [(''error'', JStr ''[Errno 32] Broken pipe'')])" by simp
  from a b c e f show ?thesis by blast
qed

text \<open>
  C5 as stated fails: at end of file the payload is not
  \<^verbatim>\<open>{"error": "mcp server not running"}\<close>.
\<close>

theorem crashed_peer_counterexample:
  "at_eof (peer []) \<and>
   fst (handle_mcp_request py_json request_1 (Some (peer []))) =
     Done (JDict [(''error'', JStr ''No response from MCP server'')]) \<and>
   fst (handle_mcp_request py_json request_1 (Some (peer []))) \<noteq>
     Done (JDict [(''error'', JStr ''mcp server not running'')])"
  by code_simp

subsection \<open>No exception escapes\<close>

text \<open>
  C10, as the code has it: whatever the request, the state of the process attribute and
  the behaviour of the pipes, the handler does not raise; and a value it returns is
  either a dictionary whose only key is \<^verbatim>\<open>error\<close>, or the value that \<^verbatim>\<open>json.loads\<close>
  gives for the stripped line that \<^verbatim>\<open>readline\<close> returned.
\<close>

theorem no_exception_escapes:
  "fst (handle_mcp_request J request proc) \<noteq> Fails e \<and>
   (fst (handle_mcp_request J request proc) = Done v \<longrightarrow>
      (\<exists>msg. v = JDict [(''error'', JStr msg)]) \<or>
      (\<exists>p line rest. proc = Some p \<and> stdout_script p = Done line # rest \<and>
         loads J (strip line) = Inr v))"
  using handle_mcp_request_not_Fails [of J request proc e]
    handle_mcp_request_Done [of J request proc v]
  by blast

text \<open>
  The second part is not empty: a peer that answers makes the handler return the parsed
  line.
\<close>

theorem no_exception_escapes_witness:
  "fst (handle_mcp_request py_json request_1 (Some (peer [Done reply_line_1]))) = Done reply_1 \<and>
   ((\<exists>msg. reply_1 = JDict [(''error'', JStr msg)]) \<or>
    (\<exists>p line rest. Some (peer [Done reply_line_1]) = Some p \<and>
       stdout_script p = Done line # rest \<and> loads py_json (strip line) = Inr reply_1))"
proof -
  have a: "fst (handle_mcp_request py_json request_1 (Some (peer [Done reply_line_1]))) =
    Done reply_1" by code_simp
  from no_exception_escapes [of py_json request_1 "Some (peer [Done reply_line_1])" _ reply_1] a
  show ?thesis by blast
qed

text \<open>
  C10 as stated fails where it says that the value returned is a dictionary: the reply
  line \<^verbatim>\<open>42\<close> parses to an integer, and the handler returns it.
\<close>

theorem reply_not_a_dictionary_counterexample:
  "fst (handle_mcp_request py_json request_1 (Some (peer [Done line_42]))) = Done (JInt 42) \<and>
   \<not> is_dict (JInt 42)"
  by code_simp

subsection \<open>Which reply a caller receives\<close>

text \<open>
  C1, as the code has it: replies are not matched with requests by id. Requests that are
  outstanding together are handled one after another, and each caller receives the next
  line of the subprocess's \<^verbatim>\<open>stdout\<close>: when the requests are serialised, \<^verbatim>\<open>stdin\<close> takes
  every write and flush, and the subprocess writes at least as many lines, none empty, as
  there are requests, the k-th request handled gets the k-th line, parsed, whatever the
  ids of the request and of the line are.
\<close>

theorem replies_in_pipe_order:
  assumes "\<forall>request\<in>set requests. \<exists>t. dumps J request = Inr t"
    and "set (stdin_script p) \<subseteq> {Done ()}"
    and "stdout_script p = map Done lines @ rest"
    and "[] \<notin> set lines"
    and "length requests \<le> length lines"
  shows "fst (handle_requests J requests (Some p)) =
     map (\<lambda>line. Done (reply_of J line)) (take (length requests) lines)"
  using assms
proof (induction requests arbitrary: p lines)
  case Nil
  then show ?case by simp
next
  case (Cons request requests)
  from Cons.prems(5) obtain line lines' where lines: "lines = line # lines'"
    by (cases lines) auto
  from Cons.prems(1) obtain t where t: "dumps J request = Inr t" by auto
  from Cons.prems(4) lines have ne: "line \<noteq> []" by auto
  from Cons.prems(3) lines have out: "stdout_script p = Done line # (map Done lines' @ rest)"
    by simp
  define p' where "p' = p\<lparr>stdin_buffer := [],
      stdin_pipe := stdin_pipe p @ stdin_buffer p @ t @ request_terminator,
      stdin_script := drop 2 (stdin_script p), stdout_script := map Done lines' @ rest\<rparr>"
  have step: "handle_mcp_request J request (Some p) = (Done (reply_of J line), Some p')"
    unfolding p'_def
    by (rule handle_mcp_request_answered [OF t all_Done_accepts [OF Cons.prems(2)] out ne])
  have f2: "set (stdin_script p') \<subseteq> {Done ()}"
    using Cons.prems(2) by (auto simp: p'_def dest: in_set_dropD)
  have f3: "stdout_script p' = map Done lines' @ rest" by (simp add: p'_def)
  have f1: "\<forall>request\<in>set requests. \<exists>t. dumps J request = Inr t"
    using Cons.prems(1) by simp
  have f4: "[] \<notin> set lines'" using Cons.prems(4) lines by simp
  have f5: "length requests \<le> length lines'" using Cons.prems(5) lines by simp
  have IH: "fst (handle_requests J requests (Some p')) =
     map (\<lambda>line. Done (reply_of J line)) (take (length requests) lines')"
    by (rule Cons.IH [OF f1 f2 f3 f4 f5])
  show ?case
    using step IH lines by (auto split: prod.splits)
qed

text \<open>
  The hypotheses hold for two requests and a peer that writes the reply to the second
  before the reply to the first.
\<close>

theorem replies_in_pipe_order_witness:
  "(\<exists>t. dumps py_json request_1 = Inr t) \<and> (\<exists>t. dumps py_json request_2 = Inr t) \<and>
   set (stdin_script (peer [Done reply_line_2, Done reply_line_1])) \<subseteq> {Done ()} \<and>
   stdout_script (peer [Done reply_line_2, Done reply_line_1]) =
     map Done [reply_line_2, reply_line_1] @ [] \<and>
   [] \<notin> set [reply_line_2, reply_line_1] \<and>
   length [request_1, request_2] \<le> length [reply_line_2, reply_line_1] \<and>
   fst (handle_requests py_json [request_1, request_2]
          (Some (peer [Done reply_line_2, Done reply_line_1]))) =
     [Done (reply_of py_json reply_line_2), Done (reply_of py_json reply_line_1)]"
proof -
  have a1: "\<exists>t. dumps py_json request_1 = Inr t"
    by (simp add: py_json_def py_dumps_def)
  have a2: "\<exists>t. dumps py_json request_2 = Inr t"
    by (simp add: py_json_def py_dumps_def)
  from a1 a2
  have a: "\<forall>request\<in>set [request_1, request_2]. \<exists>t. dumps py_json request = Inr t"
    by simp
  have b: "set (stdin_script (peer [Done reply_line_2, Done reply_line_1])) \<subseteq> {Done ()}"
    by (simp add: peer_def)
  have c: "stdout_script (peer [Done reply_line_2, Done reply_line_1]) =
     map Done [reply_line_2, reply_line_1] @ []" by (simp add: peer_def)
  have d: "[] \<notin> set [reply_line_2, reply_line_1]"
    by (simp add: reply_line_1_def reply_line_2_def)
  have e: "length [request_1, request_2] \<le> length [reply_line_2, reply_line_1]" by simp
  from replies_in_pipe_order [OF a b c d e]
  have "fst (handle_requests py_json [request_1, request_2]
          (Some (peer [Done reply_line_2, Done reply_line_1]))) =
     [Done (reply_of py_json reply_line_2), Done (reply_of py_json reply_line_1)]" by simp
  with a1 a2 b c d e show ?thesis by blast
qed

text \<open>
  C1 as stated fails: with the replies written in the other order, the caller of the
  request with id 1 receives the reply with id 2, and the caller of the request with id 2
  the reply with id 1.
\<close>

theorem replies_swapped_counterexample:
  "fst (handle_requests py_json [request_1, request_2]
          (Some (peer [Done reply_line_2, Done reply_line_1]))) =
     [Done reply_2, Done reply_1] \<and>
   json_id request_1 = Some (JInt 1) \<and> json_id reply_2 = Some (JInt 2) \<and>
   json_id request_2 = Some (JInt 2) \<and> json_id reply_1 = Some (JInt 1) \<and>
   json_id reply_2 \<noteq> json_id request_1"
  by code_simp

section \<open>Properties of \<^verbatim>\<open>http_transport.py\<close>\<close>

lemma health_check_returns: "health_check self s = (Done healthy, s)"
  by (simp add: health_check_def healthy_def)

text \<open>
  A request added at the end of the queue is answered after the others, unless one of
  them never returns.
\<close>

lemma event_loop_snoc:
  "event_loop J self (rs @ [r]) s =
     (if Blocks \<in> set (fst (event_loop J self rs s)) then event_loop J self rs s
      else (fst (event_loop J self rs s) @ [fst (route J self r (snd (event_loop J self rs s)))],
            snd (route J self r (snd (event_loop J self rs s)))))"
proof (induction rs arbitrary: s)
  case Nil
  show ?case by (cases "route J self r s") (auto split: io.splits)
next
  case (Cons a rs)
  show ?case
  proof (cases "route J self a s")
    case (Pair x s')
    show ?thesis
    proof (cases x)
      case Blocks
      with Pair show ?thesis by simp
    next
      case (Done v)
      with Pair Cons.IH [of s'] show ?thesis
        by (auto split: prod.splits)
    next
      case (Fails e)
      with Pair Cons.IH [of s'] show ?thesis
        by (auto split: prod.splits)
    qed
  qed
qed

text \<open>
  C6, as the code has it: the health route returns exactly
  \<^verbatim>\<open>{"status": "healthy", "transport": "http"}\<close> for every transport and every state
  \<open>s\<close> of the subprocess (never started, running, stopped or crashed) and leaves that
  state as it is; a \<^verbatim>\<open>GET /health\<close> that arrives after the requests \<open>rs\<close> gets that
  reply when each of them has returned, and gets no reply when one of them never returns.
\<close>

theorem health_check_when_loop_free:
  "health_check self s = (Done healthy, s) \<and>
   (Blocks \<notin> set (fst (event_loop J self rs s)) \<longrightarrow>
      event_loop J self (rs @ [Health]) s =
        (fst (event_loop J self rs s) @ [Done healthy], snd (event_loop J self rs s))) \<and>
   (Blocks \<in> set (fst (event_loop J self rs s)) \<longrightarrow>
      event_loop J self (rs @ [Health]) s = event_loop J self rs s)"
  by (simp add: event_loop_snoc health_check_returns)

text \<open>
  Both cases occur with the bridge's handler set: a \<^verbatim>\<open>POST\<close> that a subprocess
  answers, and a \<^verbatim>\<open>POST\<close> to a subprocess that runs and writes nothing.
\<close>

theorem health_check_when_loop_free_witness:
  "Blocks \<notin> set (fst (event_loop py_json bridge_transport [Post \<lparr>body = request_1_text\<rparr>]
      (Some (peer [Done reply_line_1])))) \<and>
   fst (event_loop py_json bridge_transport ([Post \<lparr>body = request_1_text\<rparr>] @ [Health])
      (Some (peer [Done reply_line_1]))) = [Done reply_1, Done healthy] \<and>
   Blocks \<in> set (fst (event_loop py_json bridge_transport [Post \<lparr>body = request_1_text\<rparr>]
      (Some (peer [Blocks])))) \<and>
   fst (event_loop py_json bridge_transport ([Post \<lparr>body = request_1_text\<rparr>] @ [Health])
      (Some (peer [Blocks]))) = [Blocks]"
proof -
  have a: "fst (event_loop py_json bridge_transport [Post \<lparr>body = request_1_text\<rparr>]
      (Some (peer [Done reply_line_1]))) = [Done reply_1]" by code_simp
  have b: "fst (event_loop py_json bridge_transport [Post \<lparr>body = request_1_text\<rparr>]
      (Some (peer [Blocks]))) = [Blocks]" by code_simp
  from a have a': "Blocks \<notin> set (fst (event_loop py_json bridge_transport
      [Post \<lparr>body = request_1_text\<rparr>] (Some (peer [Done reply_line_1]))))" by simp
  from b have b': "Blocks \<in> set (fst (event_loop py_json bridge_transport
      [Post \<lparr>body = request_1_text\<rparr>] (Some (peer [Blocks]))))" by simp
  from health_check_when_loop_free [where self = bridge_transport and J = py_json
      and rs = "[Post \<lparr>body = request_1_text\<rparr>]" and s = "Some (peer [Done reply_line_1])"] a a'
  have c: "fst (event_loop py_json bridge_transport ([Post \<lparr>body = request_1_text\<rparr>] @ [Health])
      (Some (peer [Done reply_line_1]))) = [Done reply_1, Done healthy]" by simp
  from health_check_when_loop_free [where self = bridge_transport and J = py_json
      and rs = "[Post \<lparr>body = request_1_text\<rparr>]" and s = "Some (peer [Blocks])"] b b'
  have d: "fst (event_loop py_json bridge_transport ([Post \<lparr>body = request_1_text\<rparr>] @ [Health])
      (Some (peer [Blocks]))) = [Blocks]" by simp
  from a' b' c d show ?thesis by blast
qed

text \<open>
  C6 as stated fails for a running subprocess: while a \<^verbatim>\<open>POST /mcp\<close> waits in
  \<^verbatim>\<open>readline\<close> for a subprocess that writes nothing, the \<^verbatim>\<open>GET /health\<close> behind it
  is never answered.
\<close>

theorem health_check_counterexample:
  "fst (event_loop py_json bridge_transport [Post \<lparr>body = request_1_text\<rparr>, Health]
      (Some (peer [Blocks]))) = [Blocks]"
  by code_simp

text \<open>
  C9, as the code has it: while no handler has been set on the transport, \<^verbatim>\<open>POST /mcp\<close>
  with a body that parses as JSON returns \<^verbatim>\<open>{"error": "MCP handler not configured"}\<close>;
  with a body that does not parse, it returns \<^verbatim>\<open>{"error": str(e)}\<close> for the exception of
  the parser. In both cases the route returns, and leaves the state as it is.
\<close>

theorem handler_not_configured:
  assumes "mcp_handler self = None"
  shows "(\<forall>b. request_json J request = Inr b \<longrightarrow>
            handle_jsonrpc J self request s =
              (Done (JDict [(''error'', JStr ''MCP handler not configured'')]), s)) \<and>
         (\<forall>e. request_json J request = Inl e \<longrightarrow>
            handle_jsonrpc J self request s = (Done (JDict [(''error'', JStr (str e))]), s))"
  using assms by (simp add: handle_jsonrpc_def error_dict_def)

text \<open>
  Both cases occur on a transport fresh from its constructor: a body that is a request,
  and an empty body.
\<close>

theorem handler_not_configured_witness:
  "mcp_handler transport_0 = None \<and>
   request_json py_json \<lparr>body = request_1_text\<rparr> = Inr request_1 \<and>
   handle_jsonrpc py_json transport_0 \<lparr>body = request_1_text\<rparr> None =
     (Done (JDict [(''error'', JStr ''MCP handler not configured'')]), None) \<and>
   request_json py_json \<lparr>body = []\<rparr> =
     Inl (PyException ''Expecting value: line 1 column 1 (char 0)'') \<and>
   handle_jsonrpc py_json transport_0 \<lparr>body = []\<rparr> None =
     (Done (JDict [(''error'', JStr ''Expecting value: line 1 column 1 (char 0)'')]), None)"
proof -
  have a: "mcp_handler transport_0 = None" by code_simp
  have b: "request_json py_json \<lparr>body = request_1_text\<rparr> = Inr request_1" by code_simp
  have c: "request_json py_json \<lparr>body = []\<rparr> =
     Inl (PyException ''Expecting value: line 1 column 1 (char 0)'')" by code_simp
  from handler_not_configured [OF a, of py_json "\<lparr>body = request_1_text\<rparr>" None] b
  have d: "handle_jsonrpc py_json transport_0 \<lparr>body = request_1_text\<rparr> None =
     (Done (JDict [(''error'', JStr ''MCP handler not configured'')]), None)" by blast
  from handler_not_configured [OF a, of py_json "\<lparr>body = []\<rparr>" None] c
  have e: "handle_jsonrpc py_json transport_0 \<lparr>body = []\<rparr> None =
     (Done (JDict [(''error'', JStr ''Expecting value: line 1 column 1 (char 0)'')]), None)"
    by simp
  from a b c d e show ?thesis by blast
qed

text \<open>
  C9 as stated fails for a request whose body is empty: the body is parsed before the
  handler is looked at, and the payload is the parser's message.
\<close>

theorem handler_not_configured_counterexample:
  "mcp_handler transport_0 = None \<and>
   fst (handle_jsonrpc py_json transport_0 \<lparr>body = []\<rparr> None) \<noteq>
     Done (JDict [(''error'', JStr ''MCP handler not configured'')])"
  by code_simp

section \<open>Properties of the event stream\<close>













section \<open>Properties of the startup\<close>

text \<open>
  C8: \<^verbatim>\<open>MCPHTTPBridge.start\<close> on a new bridge launches the subprocess before the HTTP
  transport accepts connections. When the launch raises, \<^verbatim>\<open>start\<close> raises the same
  exception, no transport has been made and nothing has been served. And every point of
  the trace at which the server is set to accept connections comes after a point at
  which the subprocess was launched, with the process object stored in the bridge.
\<close>

theorem launch_before_serving:
  assumes "MCPHTTPBridge_start J Popen serve h p (MCPHTTPBridge_init path, []) = (r, self', trace')"
  shows "(\<forall>e. Popen [''node'', path] = Inl e \<longrightarrow>
            r = Fails e \<and> transport self' = None \<and> trace' = []) \<and>
         (\<forall>i a b. i < length trace' \<and> trace' ! i = Serving a b \<longrightarrow>
            (\<exists>j<i. \<exists>pr. trace' ! j = Launched [''node'', path] \<and>
               Popen [''node'', path] = Inr pr \<and> process self' = Some pr))"
proof (cases "Popen [''node'', path]")
  case (Inl e)
  with assms show ?thesis
    by (auto simp: MCPHTTPBridge_start_def start_mcp_server_def MCPHTTPBridge_init_def)
next
  case (Inr pr)
  with assms have t: "trace' = [Launched [''node'', path], Serving h p]"
    and s: "process self' = Some pr"
    by (auto simp: MCPHTTPBridge_start_def start_mcp_server_def MCPHTTPBridge_init_def
        start_http_transport_def HTTPTransport_start_def HTTPTransportConfig_init_def
        set_mcp_handler_def HTTPTransport_init_def Let_def)
  show ?thesis
  proof (intro conjI allI impI)
    fix e assume "Popen [''node'', path] = Inl e"
    with Inr show "r = Fails e" by simp
  next
    fix e assume "Popen [''node'', path] = Inl e"
    with Inr show "transport self' = None" by simp
  next
    fix e assume "Popen [''node'', path] = Inl e"
    with Inr show "trace' = []" by simp
  next
    fix i a b assume "i < length trace' \<and> trace' ! i = Serving a b"
    with t have "i = 1" by (cases i) auto
    with t s Inr show "\<exists>j<i. \<exists>pr. trace' ! j = Launched [''node'', path] \<and>
               Popen [''node'', path] = Inr pr \<and> process self' = Some pr"
      by auto
  qed
qed

text \<open>
  Both cases occur: an environment in which \<^verbatim>\<open>node\<close> starts, where the trace is the
  launch followed by the serving, and one in which it is not found.
\<close>

theorem launch_before_serving_witness:
  "snd (snd started) = [Launched [''node'', index_js], Serving ''0.0.0.0'' 8080] \<and>
   (\<exists>j<1. \<exists>pr. snd (snd started) ! j = Launched [''node'', index_js] \<and>
      ok_popen [''node'', index_js] = Inr pr \<and> process (fst (snd started)) = Some pr) \<and>
   no_popen [''node'', index_js] = Inl launch_error \<and>
   fst not_started = Fails launch_error \<and>
   transport (fst (snd not_started)) = None \<and> snd (snd not_started) = []"
proof -
  have a: "started = (fst started, fst (snd started), snd (snd started))" by simp
  have b: "not_started = (fst not_started, fst (snd not_started), snd (snd not_started))"
    by simp
  have t: "snd (snd started) = [Launched [''node'', index_js], Serving ''0.0.0.0'' 8080]"
    by code_simp
  have n: "no_popen [''node'', index_js] = Inl launch_error"
    by (simp add: no_popen_def)
  from launch_before_serving [OF a [unfolded started_def]] t
  have c: "\<exists>j<1. \<exists>pr. snd (snd started) ! j = Launched [''node'', index_js] \<and>
      ok_popen [''node'', index_js] = Inr pr \<and> process (fst (snd started)) = Some pr"
    by (auto simp: started_def)
  from launch_before_serving [OF b [unfolded not_started_def]] n
  have d: "fst not_started = Fails launch_error \<and>
   transport (fst (snd not_started)) = None \<and> snd (snd not_started) = []"
    by (auto simp: not_started_def)
  from t c n d show ?thesis by blast
qed

end
